theory Spec2Isabelle
  imports Main "HOL-Library.Multiset"
begin

section \<open>Data model\<close>

text \<open>
  The handler \<^verbatim>\<open>src/handlers/pricing-label.ts\<close> reacts to a label change on an
  issue. It reads the labels of the issue from the event payload, and it talks to the
  issue tracker through a handful of calls. The model keeps the payload and the
  configuration in a \<open>Context\<close> record, and the tracker's side (the labels stored on
  the issue, the labels of the repository, the calls that were issued and the log) in
  a \<open>world\<close> record that every asynchronous function takes and returns.
\<close>

text \<open>\<^verbatim>\<open>Label\<close>: only the \<^verbatim>\<open>name\<close> of a label is ever read by the handler.\<close>

record Label =
  name :: string

text \<open>
  An entry of the issue's event log, with the three parts the handler reads:
  \<^verbatim>\<open>event.event\<close>, \<^verbatim>\<open>event.label\<close> (absent on events that carry no label) and
  \<^verbatim>\<open>event.actor?.type\<close> (absent when there is no actor).
\<close>

record issue_event =
  event :: string
  label :: "Label option"
  actor :: "string option"

text \<open>
  \<^verbatim>\<open>payload.issue\<close>: the body may be null, and so may the list of labels
  (\<^verbatim>\<open>if (!labels) throw ...\<close>).
\<close>

record issue =
  body :: "string option"
  labels :: "Label list option"

text \<open>
  The payload is either that of an issue label event, with the issue and the label that
  triggered the event (\<^verbatim>\<open>payload.label?\<close>), or that of any other event. The owner, the
  repository and the issue number are fixed by the payload and passed unchanged to every
  call; they are left out.
\<close>

datatype payload = IssueLabelEvent issue "Label option" | OtherEvent

text \<open>
  \<^verbatim>\<open>AssistivePricingSettings\<close>: \<^verbatim>\<open>labels.time\<close>, \<^verbatim>\<open>labels.priority\<close> and
  \<^verbatim>\<open>publicAccessControl.setLabel\<close>.
\<close>

record AssistivePricingSettings =
  labels_time :: "string list"
  labels_priority :: "string list"
  publicAccessControl_setLabel :: bool

datatype log_level = Debug | Info | Error | Fatal

text \<open>
  What an asynchronous function ends with: it returns, or it throws. The handler throws
  the value of \<^verbatim>\<open>logger.error(msg)\<close>; a rejected request throws the request's error.
\<close>

datatype thrown = LogReturn string | RequestError string

datatype outcome = Returned | Thrown thrown

text \<open>The calls that change labels, in the order they were issued.\<close>

datatype call =
    RemoveLabel string
  | ClearAllPriceLabelsOnIssue
  | AddLabelToIssue string
  | CreateLabel string string

record world =
  issue_labels :: "Label list"
  repo_labels :: "Label list"
  calls :: "call list"
  logs :: "(log_level \<times> string) list"

text \<open>
  The context of one invocation: the payload and the configuration, and the parts of
  the collaborators that the handler depends on and that are not in this file:
  \<^item> \<open>isParentIssue\<close> and \<open>handleParentIssue\<close> (\<^verbatim>\<open>./handle-parent-issue\<close>);
  \<^item> \<open>labelAccessPermissionsCheck\<close>, the answer of the permission check
    (\<^verbatim>\<open>../shared/permissions\<close>);
  \<^item> \<open>valueOf\<close>, the magnitude of a label name by which labels are ordered;
  \<^item> \<open>computePrice\<close>, the price of a time label name and a priority label name, or
    nothing when the pair cannot be priced;
  \<^item> \<open>listEvents\<close>, the issue's event log as the paginated request returns it, or
    nothing when the request is rejected;
  \<^item> \<open>removeLabel_rejects\<close>, the label names for which the tracker rejects the
    removal request.
\<close>

record Context =
  payload :: payload
  config :: AssistivePricingSettings
  isParentIssue :: "string \<Rightarrow> bool"
  handleParentIssue :: "Label list \<Rightarrow> world \<Rightarrow> outcome \<times> world"
  labelAccessPermissionsCheck :: bool
  valueOf :: "string \<Rightarrow> int"
  computePrice :: "string \<Rightarrow> string \<Rightarrow> string option"
  listEvents :: "issue_event list option"
  removeLabel_rejects :: "string \<Rightarrow> bool"

section \<open>Strings, logging, sequencing\<close>

text \<open>\<^verbatim>\<open>s.includes(t)\<close>: \<open>t\<close> occurs in \<open>s\<close> as a contiguous piece.\<close>

fun string_includes :: "string \<Rightarrow> string \<Rightarrow> bool" where
  "string_includes [] t = (t = [])"
| "string_includes (c # cs) t = (take (length t) (c # cs) = t \<or> string_includes cs t)"

definition log :: "log_level \<Rightarrow> string \<Rightarrow> world \<Rightarrow> world" where
  "log lv msg w = w\<lparr>logs := logs w @ [(lv, msg)]\<rparr>"

text \<open>\<^verbatim>\<open>throw logger.error(msg)\<close>: the message is logged and the log's value is thrown.\<close>

definition throw_error :: "string \<Rightarrow> world \<Rightarrow> outcome \<times> world" where
  "throw_error msg w = (Thrown (LogReturn msg), log Error msg w)"

text \<open>\<^verbatim>\<open>await f; await g\<close>: \<open>g\<close> runs only when \<open>f\<close> has returned.\<close>

definition and_then ::
  "(world \<Rightarrow> outcome \<times> world) \<Rightarrow> (world \<Rightarrow> outcome \<times> world) \<Rightarrow> world \<Rightarrow> outcome \<times> world"
where
  "and_then f g w =
     (case f w of
        (Returned, w') \<Rightarrow> g w'
      | (Thrown e, w') \<Rightarrow> (Thrown e, w'))"

text \<open>\<^verbatim>\<open>xs.shift()\<close>: the first element, if any, and the list without it.\<close>

definition shift :: "'a list \<Rightarrow> 'a option \<times> 'a list" where
  "shift xs = (case xs of [] \<Rightarrow> (None, []) | x # r \<Rightarrow> (Some x, r))"

section \<open>Collaborators\<close>

text \<open>
  Modelled from the spec: the type guard \<^verbatim>\<open>isIssueLabelEvent\<close> of
  \<^verbatim>\<open>../types/typeguards\<close> is not in this file. It holds of the invocations whose
  payload is that of an issue label event.
\<close>

definition isIssueLabelEvent :: "Context \<Rightarrow> bool" where
  "isIssueLabelEvent ctx = (case payload ctx of IssueLabelEvent i t \<Rightarrow> True | OtherEvent \<Rightarrow> False)"

text \<open>
  A price label of an issue, as the handler itself picks them out before it removes
  duplicates: \<^verbatim>\<open>labels.filter((label) => label.name.includes("Price: "))\<close>.
\<close>

definition isPriceLabel :: "Label \<Rightarrow> bool" where
  "isPriceLabel l = string_includes (name l) ''Price: ''"

text \<open>
  Modelled from the spec: \<^verbatim>\<open>sortLabelsByValue\<close> of \<^verbatim>\<open>./handle-parent-issue\<close> is not
  in this file. The spec's label value model: labels are sorted ascending by their
  magnitude, smallest first, and the sort is stable (labels of equal magnitude keep
  their original order).
\<close>

definition sortLabelsByValue :: "Context \<Rightarrow> Label list \<Rightarrow> Label list" where
  "sortLabelsByValue ctx ls = sort_key (\<lambda>l. valueOf ctx (name l)) ls"

text \<open>
  Modelled from the spec: \<^verbatim>\<open>setPrice\<close> of \<^verbatim>\<open>../shared/pricing\<close> is not in this
  file. The spec's price calculator: a deterministic function of the time label and the
  priority label; the price is rendered as the label name \<^verbatim>\<open>Price: <value>\<close>; the result
  is absent when the pair cannot be priced.
\<close>

definition setPrice :: "Context \<Rightarrow> Label \<Rightarrow> Label \<Rightarrow> string option" where
  "setPrice ctx t p =
     (case computePrice ctx (name t) (name p) of
        None \<Rightarrow> None
      | Some v \<Rightarrow> Some (''Price: '' @ v))"

text \<open>
  Modelled from the spec: \<^verbatim>\<open>clearAllPriceLabelsOnIssue\<close> of \<^verbatim>\<open>../shared/label\<close> is
  not in this file. The spec's label store: it clears every price label currently on
  the issue; a failure inside it is logged and not thrown.
\<close>

definition clearAllPriceLabelsOnIssue :: "Context \<Rightarrow> world \<Rightarrow> outcome \<times> world" where
  "clearAllPriceLabelsOnIssue ctx w =
     (Returned,
      w\<lparr>issue_labels := filter (\<lambda>l. \<not> isPriceLabel l) (issue_labels w),
        calls := calls w @ [ClearAllPriceLabelsOnIssue]\<rparr>)"

text \<open>
  Modelled from the spec: \<^verbatim>\<open>addLabelToIssue\<close> of \<^verbatim>\<open>../shared/label\<close> is not in this
  file. The label of that name is on the issue afterwards; a label that is already
  there is not added a second time.
\<close>

definition addLabelToIssue :: "Context \<Rightarrow> string \<Rightarrow> world \<Rightarrow> outcome \<times> world" where
  "addLabelToIssue ctx nm w =
     (Returned,
      w\<lparr>issue_labels :=
          (if list_ex (\<lambda>l. name l = nm) (issue_labels w) then issue_labels w
           else issue_labels w @ [\<lparr>name = nm\<rparr>]),
        calls := calls w @ [AddLabelToIssue nm]\<rparr>)"

text \<open>
  Modelled from the spec: \<^verbatim>\<open>createLabel\<close> and \<^verbatim>\<open>listLabelsForRepo\<close> of
  \<^verbatim>\<open>../shared/label\<close> are not in this file. The first adds a label of that name to
  the repository's label set, the second reads that set.
\<close>

definition createLabel :: "Context \<Rightarrow> string \<Rightarrow> string \<Rightarrow> world \<Rightarrow> outcome \<times> world" where
  "createLabel ctx nm category w =
     (Returned,
      w\<lparr>repo_labels := repo_labels w @ [\<lparr>name = nm\<rparr>],
        calls := calls w @ [CreateLabel nm category]\<rparr>)"

definition listLabelsForRepo :: "Context \<Rightarrow> world \<Rightarrow> Label list" where
  "listLabelsForRepo ctx w = repo_labels w"

text \<open>
  \<^verbatim>\<open>context.octokit.issues.removeLabel({..., name})\<close>, the tracker's own request. The
  request is issued; when the tracker rejects it the promise is rejected, and \<^verbatim>\<open>await\<close>
  throws. Otherwise the label of that name is no longer on the issue.
\<close>

definition removeLabel :: "Context \<Rightarrow> string \<Rightarrow> world \<Rightarrow> outcome \<times> world" where
  "removeLabel ctx nm w =
     (let w' = w\<lparr>calls := calls w @ [RemoveLabel nm]\<rparr>
      in if removeLabel_rejects ctx nm then (Thrown (RequestError nm), w')
         else (Returned, w'\<lparr>issue_labels := filter (\<lambda>l. name l \<noteq> nm) (issue_labels w')\<rparr>))"

section \<open>The handler\<close>

text \<open>\<^verbatim>\<open>getAllIssueEvents\<close>: a rejected request is logged and gives the empty list.\<close>

definition getAllIssueEvents :: "Context \<Rightarrow> world \<Rightarrow> issue_event list option \<times> world" where
  "getAllIssueEvents ctx w =
     (case payload ctx of
        OtherEvent \<Rightarrow> (None, log Debug ''Not an issue event'' w)
      | IssueLabelEvent i t \<Rightarrow>
          (case listEvents ctx of
             None \<Rightarrow> (Some [], log Fatal ''Failed to fetch lists of events'' w)
           | Some es \<Rightarrow> (Some es, w)))"

definition getAllLabeledEvents :: "Context \<Rightarrow> world \<Rightarrow> issue_event list option \<times> world" where
  "getAllLabeledEvents ctx w =
     (case getAllIssueEvents ctx w of
        (None, w') \<Rightarrow> (None, w')
      | (Some es, w') \<Rightarrow> (Some (filter (\<lambda>e. event e = ''labeled'') es), w'))"

definition addPriceLabelToIssue :: "Context \<Rightarrow> string \<Rightarrow> world \<Rightarrow> outcome \<times> world" where
  "addPriceLabelToIssue ctx targetPriceLabel =
     and_then (clearAllPriceLabelsOnIssue ctx) (addLabelToIssue ctx targetPriceLabel)"

text \<open>
  \<^verbatim>\<open>"label" in event && event.label.name.includes("Price")\<close>, the filter of
  \<^verbatim>\<open>handleExistingPriceLabel\<close>.
\<close>

definition isPriceLabeledEvent :: "issue_event \<Rightarrow> bool" where
  "isPriceLabeledEvent e = (case label e of None \<Rightarrow> False | Some l \<Rightarrow> string_includes (name l) ''Price'')"

definition handleExistingPriceLabel :: "Context \<Rightarrow> string \<Rightarrow> world \<Rightarrow> outcome \<times> world" where
  "handleExistingPriceLabel ctx targetPriceLabel w =
     (case getAllLabeledEvents ctx w of
        (None, w') \<Rightarrow> (Returned, log Error ''No labeled events found'' w')
      | (Some labeledEvents, w') \<Rightarrow>
          (let priceEvents = filter isPriceLabeledEvent labeledEvents
           in if priceEvents = [] then (Returned, log Error ''No price labeled events found'' w')
              else if actor (last priceEvents) = Some ''User''
                   then (Returned, log Info ''Skipping... already exists'' w')
                   else addPriceLabelToIssue ctx targetPriceLabel w'))"

text \<open>
  \<^verbatim>\<open>handleTargetPriceLabel\<close>. \<^verbatim>\<open>labelNames.find(...)\<close> gives the first name that
  contains both \<^verbatim>\<open>"Price"\<close> and the target, and \<^verbatim>\<open>if (_targetPriceLabel)\<close> holds when a
  name was found and it is not the empty string.
\<close>

definition handleTargetPriceLabel ::
  "Context \<Rightarrow> string \<Rightarrow> string list \<Rightarrow> world \<Rightarrow> outcome \<times> world"
where
  "handleTargetPriceLabel ctx targetPriceLabel labelNames w =
     (case find (\<lambda>n. string_includes n ''Price'' \<and> string_includes n targetPriceLabel) labelNames of
        Some n \<Rightarrow>
          if n \<noteq> [] then handleExistingPriceLabel ctx targetPriceLabel w
          else (let allLabels = listLabelsForRepo ctx w
                in if length (filter (\<lambda>i. string_includes (name i) targetPriceLabel) allLabels) = 0
                   then and_then (createLabel ctx targetPriceLabel ''price'')
                          (addPriceLabelToIssue ctx targetPriceLabel) w
                   else addPriceLabelToIssue ctx targetPriceLabel w)
      | None \<Rightarrow>
          (let allLabels = listLabelsForRepo ctx w
           in if length (filter (\<lambda>i. string_includes (name i) targetPriceLabel) allLabels) = 0
              then and_then (createLabel ctx targetPriceLabel ''price'')
                     (addPriceLabelToIssue ctx targetPriceLabel) w
              else addPriceLabelToIssue ctx targetPriceLabel w))"

text \<open>\<^verbatim>\<open>getRecognizedLabels\<close>: the two buckets \<^verbatim>\<open>{ time, priority }\<close>.\<close>

definition isRecognizedLabel :: "Label \<Rightarrow> string list \<Rightarrow> bool" where
  "isRecognizedLabel l configLabels = list_ex (\<lambda>configLabel. configLabel = name l) configLabels"

record recognized_labels =
  time :: "Label list"
  priority :: "Label list"

definition getRecognizedLabels :: "Label list \<Rightarrow> AssistivePricingSettings \<Rightarrow> recognized_labels" where
  "getRecognizedLabels ls settings =
     \<lparr>time = filter (\<lambda>l. isRecognizedLabel l (labels_time settings)) ls,
      priority = filter (\<lambda>l. isRecognizedLabel l (labels_priority settings)) ls\<rparr>"

text \<open>\<^verbatim>\<open>getMinLabels\<close>: the first label of each sorted bucket, absent for an empty one.\<close>

record min_labels =
  min_time :: "Label option"
  min_priority :: "Label option"

definition getMinLabels :: "Context \<Rightarrow> recognized_labels \<Rightarrow> min_labels" where
  "getMinLabels ctx recognizedLabels =
     \<lparr>min_time = fst (shift (sortLabelsByValue ctx (time recognizedLabels))),
      min_priority = fst (shift (sortLabelsByValue ctx (priority recognizedLabels)))\<rparr>"

text \<open>
  \<^verbatim>\<open>setPriceLabel\<close>. \<^verbatim>\<open>if (targetPriceLabel)\<close> holds of a string that is neither absent
  nor empty.
\<close>

definition setPriceLabel ::
  "Context \<Rightarrow> Label list \<Rightarrow> AssistivePricingSettings \<Rightarrow> world \<Rightarrow> outcome \<times> world"
where
  "setPriceLabel ctx issueLabels settings w =
     (let labelNames = map name issueLabels;
          recognizedLabels = getRecognizedLabels issueLabels settings
      in if time recognizedLabels = [] \<or> priority recognizedLabels = []
         then clearAllPriceLabelsOnIssue ctx (log Error ''No recognized labels to calculate price'' w)
         else (let minLabels = getMinLabels ctx recognizedLabels
               in case (min_time minLabels, min_priority minLabels) of
                    (Some t, Some p) \<Rightarrow>
                      (case setPrice ctx t p of
                         Some targetPriceLabel \<Rightarrow>
                           if targetPriceLabel \<noteq> []
                           then handleTargetPriceLabel ctx targetPriceLabel labelNames w
                           else and_then (clearAllPriceLabelsOnIssue ctx)
                                  (\<lambda>w'. (Returned, log Info ''Skipping action...'' w')) w
                       | None \<Rightarrow>
                           and_then (clearAllPriceLabelsOnIssue ctx)
                             (\<lambda>w'. (Returned, log Info ''Skipping action...'' w')) w)
                  | _ \<Rightarrow> (Returned, log Error ''No label to calculate price'' w)))"

text \<open>
  The loop of \<^verbatim>\<open>onLabelChangeSetPricing\<close> that removes the price labels left after the
  smallest: one removal request per label, each awaited, with nothing around it that
  catches a rejection.
\<close>

fun removeLabels :: "Context \<Rightarrow> Label list \<Rightarrow> world \<Rightarrow> outcome \<times> world" where
  "removeLabels ctx [] w = (Returned, w)"
| "removeLabels ctx (l # ls) w =
     (case removeLabel ctx (name l) w of
        (Returned, w') \<Rightarrow> removeLabels ctx ls w'
      | (Thrown e, w') \<Rightarrow> (Thrown e, w'))"

text \<open>
  The branch of \<^verbatim>\<open>onLabelChangeSetPricing\<close> taken when the triggering label is a price
  label. \<^verbatim>\<open>if (smallestPriceLabelName)\<close> holds when there is a smallest price label and
  its name is not the empty string.
\<close>

definition removeOtherPriceLabels :: "Context \<Rightarrow> Label list \<Rightarrow> world \<Rightarrow> outcome \<times> world" where
  "removeOtherPriceLabels ctx ls w =
     (let w' = log Info ''This is setting the price label directly so skipping the rest of the action.'' w;
          priceLabels = filter (\<lambda>l. string_includes (name l) ''Price: '') ls;
          (smallestPriceLabel, sortedPriceLabels) = shift (sortLabelsByValue ctx priceLabels)
      in case smallestPriceLabel of
           Some s \<Rightarrow> if name s \<noteq> [] then removeLabels ctx sortedPriceLabels w' else (Returned, w')
         | None \<Rightarrow> (Returned, w'))"

definition isPayloadToSetPrice :: "Label option \<Rightarrow> bool" where
  "isPayloadToSetPrice t = (case t of None \<Rightarrow> False | Some l \<Rightarrow> string_includes (name l) ''Price: '')"

text \<open>\<^verbatim>\<open>payload.issue.body && isParentIssue(payload.issue.body)\<close>.\<close>

definition issueIsParent :: "Context \<Rightarrow> issue \<Rightarrow> bool" where
  "issueIsParent ctx i = (case body i of None \<Rightarrow> False | Some b \<Rightarrow> b \<noteq> [] \<and> isParentIssue ctx b)"

definition onLabelChangeSetPricing :: "Context \<Rightarrow> world \<Rightarrow> outcome \<times> world" where
  "onLabelChangeSetPricing ctx w =
     (case payload ctx of
        OtherEvent \<Rightarrow> (Returned, log Debug ''Not an issue event'' w)
      | IssueLabelEvent i t \<Rightarrow>
          (case labels i of
             None \<Rightarrow> throw_error ''No labels to calculate price'' w
           | Some ls \<Rightarrow>
               if issueIsParent ctx i
               then handleParentIssue ctx ls w
               else if \<not> labelAccessPermissionsCheck ctx
               then (if \<not> publicAccessControl_setLabel (config ctx)
                     then throw_error ''No public access control to set labels'' w
                     else throw_error ''No permission to set labels'' w)
               else if isPayloadToSetPrice t
               then removeOtherPriceLabels ctx ls w
               else setPriceLabel ctx ls (config ctx) w))"

section \<open>Vocabulary of the properties\<close>

text \<open>
  The part of the event log that \<^verbatim>\<open>handleExistingPriceLabel\<close> looks at: the
  \<^verbatim>\<open>labeled\<close> events whose label name contains \<^verbatim>\<open>Price\<close>, in the order of the log.
  A rejected request for the log counts as an empty log.
\<close>

definition priceLabeledEvents :: "Context \<Rightarrow> issue_event list" where
  "priceLabeledEvents ctx =
     filter isPriceLabeledEvent
       (filter (\<lambda>e. event e = ''labeled'') (case listEvents ctx of None \<Rightarrow> [] | Some es \<Rightarrow> es))"

text \<open>
  The most recent labeling of a price label was done by a human: the last of those
  events has an actor of type \<^verbatim>\<open>User\<close>.
\<close>

definition lastPriceActorIsHuman :: "Context \<Rightarrow> bool" where
  "lastPriceActorIsHuman ctx =
     (priceLabeledEvents ctx \<noteq> [] \<and> actor (last (priceLabeledEvents ctx)) = Some ''User'')"

text \<open>
  A label name matches the target the way \<^verbatim>\<open>handleTargetPriceLabel\<close> looks for it: the
  name contains \<^verbatim>\<open>Price\<close> and contains the target.
\<close>

definition matchesTarget :: "string \<Rightarrow> string \<Rightarrow> bool" where
  "matchesTarget targetPriceLabel n = (string_includes n ''Price'' \<and> string_includes n targetPriceLabel)"

section \<open>A small configuration to run the handler on\<close>

definition example_valueOf :: "string \<Rightarrow> int" where
  "example_valueOf s =
     (if s = ''Price: 1 USD'' \<or> s = ''Time: 1 Day'' then 1
      else if s = ''Price: 2 USD'' then 2
      else if s = ''Price: 5 USD'' then 5
      else if s = ''Time: 1 Week'' then 7
      else 0)"

definition example_config :: AssistivePricingSettings where
  "example_config =
     \<lparr>labels_time = [''Time: 1 Day'', ''Time: 1 Week''],
      labels_priority = [''Priority: 1 (Normal)''],
      publicAccessControl_setLabel = True\<rparr>"

text \<open>
  A context over that configuration, for an issue with the labels \<open>ls\<close>, the triggering
  label \<open>t\<close>, the event log \<open>es\<close> and the removal of the names \<open>rej\<close> rejected. One day at
  normal priority costs 1 USD; nothing else has a price.
\<close>

definition example_ctx ::
  "Label list \<Rightarrow> Label option \<Rightarrow> issue_event list option \<Rightarrow> string list \<Rightarrow> Context"
where
  "example_ctx ls t es rej =
     \<lparr>payload = IssueLabelEvent \<lparr>body = None, labels = Some ls\<rparr> t,
      config = example_config,
      isParentIssue = (\<lambda>b. False),
      handleParentIssue = (\<lambda>ls w. (Returned, w)),
      labelAccessPermissionsCheck = True,
      valueOf = example_valueOf,
      computePrice =
        (\<lambda>a b. if a = ''Time: 1 Day'' \<and> b = ''Priority: 1 (Normal)'' then Some ''1 USD'' else None),
      listEvents = es,
      removeLabel_rejects = (\<lambda>n. n \<in> set rej)\<rparr>"

definition example_world :: "Label list \<Rightarrow> world" where
  "example_world ls = \<lparr>issue_labels = ls, repo_labels = [], calls = [], logs = []\<rparr>"

definition lbl :: "string \<Rightarrow> Label" where
  "lbl s = \<lparr>name = s\<rparr>"

definition labeled_by :: "string \<Rightarrow> string \<Rightarrow> issue_event" where
  "labeled_by who s = \<lparr>event = ''labeled'', label = Some (lbl s), actor = Some who\<rparr>"

section \<open>Properties of the model\<close>

lemma string_includes_iff: "string_includes s t \<longleftrightarrow> (\<exists>p q. s = p @ t @ q)"
proof (induction s)
  case Nil
  then show ?case by auto
next
  case (Cons c cs)
  have pre: "take (length t) (c # cs) = t \<longleftrightarrow> (\<exists>q. c # cs = t @ q)"
    by (metis append_eq_conv_conj)
  show ?case
  proof
    assume "string_includes (c # cs) t"
    then show "\<exists>p q. c # cs = p @ t @ q"
      using Cons.IH pre by (metis append_Cons append_Nil string_includes.simps(2))
  next
    assume "\<exists>p q. c # cs = p @ t @ q"
    then obtain p q where pq: "c # cs = p @ t @ q" by blast
    show "string_includes (c # cs) t"
    proof (cases p)
      case Nil
      with pq pre have "take (length t) (c # cs) = t" by auto
      then show ?thesis by simp
    next
      case (Cons a p')
      with pq have "cs = p' @ t @ q" by simp
      with Cons.IH show ?thesis by auto
    qed
  qed
qed

lemma string_includes_nonempty: "string_includes n t \<Longrightarrow> t \<noteq> [] \<Longrightarrow> n \<noteq> []"
  by (cases n) auto

lemma setPrice_Some:
  assumes "setPrice ctx t p = Some target"
  shows "isPriceLabel \<lparr>name = target\<rparr>" and "string_includes target ''Price''" and "target \<noteq> []"
proof -
  from assms obtain v where v: "target = ''Price: '' @ v"
    by (auto simp: setPrice_def split: option.splits)
  have "target = [] @ ''Price: '' @ v" using v by simp
  then show "isPriceLabel \<lparr>name = target\<rparr>"
    unfolding isPriceLabel_def string_includes_iff by (metis Label.select_convs(1))
  have "target = [] @ ''Price'' @ ('': '' @ v)" using v by simp
  then show "string_includes target ''Price''"
    unfolding string_includes_iff by blast
  show "target \<noteq> []" using v by simp
qed

lemma sortLabelsByValue_Nil_iff: "sortLabelsByValue ctx ls = [] \<longleftrightarrow> ls = []"
  using length_sort [of "\<lambda>l. valueOf ctx (name l)" ls]
  unfolding sortLabelsByValue_def by (metis length_0_conv)

lemma set_sortLabelsByValue: "set (sortLabelsByValue ctx ls) = set ls"
  by (simp add: sortLabelsByValue_def)


lemma shift_None_iff: "fst (shift xs) = None \<longleftrightarrow> xs = []"
  by (simp add: shift_def split: list.splits)

lemma recognized_time_empty_iff:
  "time (getRecognizedLabels ls settings) = [] \<longleftrightarrow> (\<forall>l \<in> set ls. name l \<notin> set (labels_time settings))"
  by (auto simp: getRecognizedLabels_def isRecognizedLabel_def filter_empty_conv list_ex_iff)

lemma recognized_priority_empty_iff:
  "priority (getRecognizedLabels ls settings) = [] \<longleftrightarrow> (\<forall>l \<in> set ls. name l \<notin> set (labels_priority settings))"
  by (auto simp: getRecognizedLabels_def isRecognizedLabel_def filter_empty_conv list_ex_iff)

lemma getMinLabels_time_None_iff:
  "min_time (getMinLabels ctx rl) = None \<longleftrightarrow> time rl = []"
  by (simp add: getMinLabels_def shift_None_iff sortLabelsByValue_Nil_iff)

lemma getMinLabels_priority_None_iff:
  "min_priority (getMinLabels ctx rl) = None \<longleftrightarrow> priority rl = []"
  by (simp add: getMinLabels_def shift_None_iff sortLabelsByValue_Nil_iff)

lemma clearAllPriceLabelsOnIssue_eq:
  "clearAllPriceLabelsOnIssue ctx w =
     (Returned, w\<lparr>issue_labels := filter (\<lambda>l. \<not> isPriceLabel l) (issue_labels w),
                  calls := calls w @ [ClearAllPriceLabelsOnIssue]\<rparr>)"
  by (simp add: clearAllPriceLabelsOnIssue_def)

lemma addPriceLabelToIssue_price:
  assumes "isPriceLabel \<lparr>name = target\<rparr>"
  shows "addPriceLabelToIssue ctx target w =
     (Returned, w\<lparr>issue_labels := filter (\<lambda>l. \<not> isPriceLabel l) (issue_labels w) @ [\<lparr>name = target\<rparr>],
                  calls := calls w @ [ClearAllPriceLabelsOnIssue, AddLabelToIssue target]\<rparr>)"
proof -
  have "\<not> list_ex (\<lambda>l. name l = target) (filter (\<lambda>l. \<not> isPriceLabel l) (issue_labels w))"
    using assms by (auto simp: list_ex_iff isPriceLabel_def)
  then show ?thesis
    by (simp add: addPriceLabelToIssue_def and_then_def clearAllPriceLabelsOnIssue_def addLabelToIssue_def)
qed

lemma addPriceLabelToIssue_calls:
  "fst (addPriceLabelToIssue ctx target w) = Returned \<and>
   calls (snd (addPriceLabelToIssue ctx target w)) = calls w @ [ClearAllPriceLabelsOnIssue, AddLabelToIssue target] \<and>
   repo_labels (snd (addPriceLabelToIssue ctx target w)) = repo_labels w"
  by (simp add: addPriceLabelToIssue_def and_then_def clearAllPriceLabelsOnIssue_def addLabelToIssue_def)

lemma getAllLabeledEvents_issue:
  assumes "isIssueLabelEvent ctx"
  shows "getAllLabeledEvents ctx w =
     (Some (filter (\<lambda>e. event e = ''labeled'') (case listEvents ctx of None \<Rightarrow> [] | Some es \<Rightarrow> es)),
      case listEvents ctx of None \<Rightarrow> log Fatal ''Failed to fetch lists of events'' w | Some es \<Rightarrow> w)"
  using assms
  by (simp add: getAllLabeledEvents_def getAllIssueEvents_def isIssueLabelEvent_def
      split: payload.splits option.splits)

lemma log_fields [simp]:
  "calls (log lv msg w) = calls w" "issue_labels (log lv msg w) = issue_labels w"
  "repo_labels (log lv msg w) = repo_labels w" "logs (log lv msg w) = logs w @ [(lv, msg)]"
  by (simp_all add: log_def)

lemma handleExistingPriceLabel_skip:
  assumes "isIssueLabelEvent ctx" and "priceLabeledEvents ctx = [] \<or> lastPriceActorIsHuman ctx"
  shows "fst (handleExistingPriceLabel ctx target w) = Returned"
    and "calls (snd (handleExistingPriceLabel ctx target w)) = calls w"
    and "issue_labels (snd (handleExistingPriceLabel ctx target w)) = issue_labels w"
    and "repo_labels (snd (handleExistingPriceLabel ctx target w)) = repo_labels w"
  using assms(2)
  by (auto simp: handleExistingPriceLabel_def getAllLabeledEvents_issue [OF assms(1)] Let_def
      priceLabeledEvents_def lastPriceActorIsHuman_def split: option.splits)

lemma handleExistingPriceLabel_replace:
  assumes "isIssueLabelEvent ctx" and "priceLabeledEvents ctx \<noteq> []" and "\<not> lastPriceActorIsHuman ctx"
  shows "handleExistingPriceLabel ctx target w =
     addPriceLabelToIssue ctx target
       (case listEvents ctx of None \<Rightarrow> log Fatal ''Failed to fetch lists of events'' w | Some es \<Rightarrow> w)"
  using assms(2,3)
  by (auto simp: handleExistingPriceLabel_def getAllLabeledEvents_issue [OF assms(1)] Let_def
      priceLabeledEvents_def lastPriceActorIsHuman_def split: option.splits)

lemma find_matches:
  "find (\<lambda>n. string_includes n ''Price'' \<and> string_includes n target) names = Some n \<Longrightarrow> n \<noteq> []"
  by (auto simp: find_Some_iff dest: string_includes_nonempty)

lemma handleTargetPriceLabel_existing:
  assumes "list_ex (matchesTarget target) names"
  shows "handleTargetPriceLabel ctx target names w = handleExistingPriceLabel ctx target w"
proof -
  from assms obtain n where "find (\<lambda>n. string_includes n ''Price'' \<and> string_includes n target) names = Some n"
    by (cases "find (\<lambda>n. string_includes n ''Price'' \<and> string_includes n target) names")
       (auto simp: find_None_iff list_ex_iff matchesTarget_def)
  then show ?thesis
    using find_matches by (simp add: handleTargetPriceLabel_def)
qed

lemma handleTargetPriceLabel_absent:
  assumes "\<not> list_ex (matchesTarget target) names"
  shows "handleTargetPriceLabel ctx target names w =
     (if list_ex (\<lambda>i. string_includes (name i) target) (repo_labels w)
      then addPriceLabelToIssue ctx target w
      else and_then (createLabel ctx target ''price'') (addPriceLabelToIssue ctx target) w)"
proof -
  have "find (\<lambda>n. string_includes n ''Price'' \<and> string_includes n target) names = None"
    using assms by (auto simp: find_None_iff list_ex_iff matchesTarget_def)
  moreover have "(filter (\<lambda>i. string_includes (name i) target) (repo_labels w) = []) =
      (\<not> list_ex (\<lambda>i. string_includes (name i) target) (repo_labels w))"
    by (auto simp: filter_empty_conv list_ex_iff)
  ultimately show ?thesis
    by (simp add: handleTargetPriceLabel_def listLabelsForRepo_def Let_def)
qed

lemma setPriceLabel_target:
  assumes "min_time (getMinLabels ctx (getRecognizedLabels ls settings)) = Some t"
    and "min_priority (getMinLabels ctx (getRecognizedLabels ls settings)) = Some p"
    and "setPrice ctx t p = Some target"
  shows "setPriceLabel ctx ls settings w = handleTargetPriceLabel ctx target (map name ls) w"
proof -
  have "time (getRecognizedLabels ls settings) \<noteq> []"
    using assms(1) getMinLabels_time_None_iff [of ctx "getRecognizedLabels ls settings"] by auto
  moreover have "priority (getRecognizedLabels ls settings) \<noteq> []"
    using assms(2) getMinLabels_priority_None_iff [of ctx "getRecognizedLabels ls settings"] by auto
  moreover have "target \<noteq> []" using assms(3) by (rule setPrice_Some)
  ultimately show ?thesis
    using assms by (simp add: setPriceLabel_def Let_def)
qed

lemmas example_defs =
  example_ctx_def example_world_def example_config_def example_valueOf_def lbl_def labeled_by_def

lemmas handler_defs =
  onLabelChangeSetPricing_def issueIsParent_def isPayloadToSetPrice_def removeOtherPriceLabels_def
  setPriceLabel_def getRecognizedLabels_def isRecognizedLabel_def getMinLabels_def shift_def
  sortLabelsByValue_def setPrice_def handleTargetPriceLabel_def handleExistingPriceLabel_def
  getAllLabeledEvents_def getAllIssueEvents_def isPriceLabeledEvent_def addPriceLabelToIssue_def
  and_then_def clearAllPriceLabelsOnIssue_def addLabelToIssue_def createLabel_def
  listLabelsForRepo_def removeLabel_def isPriceLabel_def throw_error_def log_def
  priceLabeledEvents_def lastPriceActorIsHuman_def matchesTarget_def isIssueLabelEvent_def

lemma handleExistingPriceLabel_logs:
  "\<exists>xs. logs (snd (handleExistingPriceLabel ctx target w)) = logs w @ xs \<and>
        (Error, ''No label to calculate price'') \<notin> set xs"
  by (auto simp: handleExistingPriceLabel_def getAllLabeledEvents_def getAllIssueEvents_def Let_def
      addPriceLabelToIssue_def and_then_def clearAllPriceLabelsOnIssue_def addLabelToIssue_def
      split: payload.splits option.splits)

lemma handleTargetPriceLabel_logs:
  "\<exists>xs. logs (snd (handleTargetPriceLabel ctx target names w)) = logs w @ xs \<and>
        (Error, ''No label to calculate price'') \<notin> set xs"
proof (cases "list_ex (matchesTarget target) names")
  case True
  then show ?thesis
    using handleExistingPriceLabel_logs by (simp add: handleTargetPriceLabel_existing)
next
  case False
  then show ?thesis
    by (simp add: handleTargetPriceLabel_absent addPriceLabelToIssue_def and_then_def
        clearAllPriceLabelsOnIssue_def addLabelToIssue_def createLabel_def)
qed

lemma setPriceLabel_logs:
  "\<exists>xs. logs (snd (setPriceLabel ctx ls settings w)) = logs w @ xs \<and>
        (Error, ''No label to calculate price'') \<notin> set xs"
proof (cases "time (getRecognizedLabels ls settings) = [] \<or> priority (getRecognizedLabels ls settings) = []")
  case True
  then show ?thesis
    by (auto simp: setPriceLabel_def Let_def clearAllPriceLabelsOnIssue_def)
next
  case False
  then obtain t p where t: "min_time (getMinLabels ctx (getRecognizedLabels ls settings)) = Some t"
    and p: "min_priority (getMinLabels ctx (getRecognizedLabels ls settings)) = Some p"
    using getMinLabels_time_None_iff [of ctx "getRecognizedLabels ls settings"]
      getMinLabels_priority_None_iff [of ctx "getRecognizedLabels ls settings"]
    by auto
  show ?thesis
  proof (cases "setPrice ctx t p")
    case None
    with False t p show ?thesis
      by (simp add: setPriceLabel_def Let_def and_then_def clearAllPriceLabelsOnIssue_def)
  next
    case (Some target)
    then show ?thesis
      using handleTargetPriceLabel_logs setPriceLabel_target [OF t p Some] by simp
  qed
qed

lemma onLabelChangeSetPricing_reconcile:
  assumes "payload ctx = IssueLabelEvent i trig" and "labels i = Some ls"
    and "\<not> issueIsParent ctx i" and "labelAccessPermissionsCheck ctx"
  shows "onLabelChangeSetPricing ctx w =
     (if isPayloadToSetPrice trig then removeOtherPriceLabels ctx ls w
      else setPriceLabel ctx ls (config ctx) w)"
  using assms by (simp add: onLabelChangeSetPricing_def)


lemma removeLabels_rejected:
  "list_all (\<lambda>l. \<not> removeLabel_rejects ctx (name l)) before \<Longrightarrow> removeLabel_rejects ctx (name r) \<Longrightarrow>
   removeLabels ctx (before @ r # after) w =
     (Thrown (RequestError (name r)),
      w\<lparr>issue_labels := filter (\<lambda>l. name l \<notin> name ` set before) (issue_labels w),
        calls := calls w @ map (\<lambda>l. RemoveLabel (name l)) (before @ [r])\<rparr>)"
proof (induction before arbitrary: w)
  case Nil
  then show ?case by (simp add: removeLabel_def Let_def)
next
  case (Cons a before)
  from Cons show ?case
    by (simp add: removeLabel_def Let_def)
qed



lemma removeOtherPriceLabels_eq:
  "removeOtherPriceLabels ctx ls w =
     removeLabels ctx (tl (sortLabelsByValue ctx (filter isPriceLabel ls)))
       (log Info ''This is setting the price label directly so skipping the rest of the action.'' w)"
proof -
  have fe: "filter (\<lambda>l. string_includes (name l) ''Price: '') ls = filter isPriceLabel ls"
    by (rule filter_cong) (simp_all add: isPriceLabel_def)
  show ?thesis
  proof (cases "sortLabelsByValue ctx (filter isPriceLabel ls)")
    case Nil
    then show ?thesis
      unfolding removeOtherPriceLabels_def fe by (simp add: shift_def)
  next
    case (Cons s rest)
    then have "s \<in> set (filter isPriceLabel ls)"
      using set_sortLabelsByValue [of ctx "filter isPriceLabel ls"] by auto
    then have "name s \<noteq> []"
      by (auto simp: isPriceLabel_def dest: string_includes_nonempty)
    with Cons show ?thesis
      unfolding removeOtherPriceLabels_def fe by (simp add: shift_def)
  qed
qed



section \<open>Events that are not issue label events\<close>

text \<open>
  C10. When the payload is not that of an issue label event, the handler logs the debug
  message and returns: it throws nothing, it issues no call that changes labels, and the
  labels of the issue and of the repository are what they were.
\<close>

theorem not_issue_label_event_returns:
  "\<not> isIssueLabelEvent ctx \<Longrightarrow>
   onLabelChangeSetPricing ctx w = (Returned, w\<lparr>logs := logs w @ [(Debug, ''Not an issue event'')]\<rparr>) \<and>
   fst (onLabelChangeSetPricing ctx w) = Returned \<and>
   calls (snd (onLabelChangeSetPricing ctx w)) = calls w \<and>
   issue_labels (snd (onLabelChangeSetPricing ctx w)) = issue_labels w \<and>
   repo_labels (snd (onLabelChangeSetPricing ctx w)) = repo_labels w"
  by (simp add: isIssueLabelEvent_def onLabelChangeSetPricing_def log_def split: payload.splits)

theorem not_issue_label_event_returns_witness:
  "\<not> isIssueLabelEvent ((example_ctx [] None None [])\<lparr>payload := OtherEvent\<rparr>) \<and>
   onLabelChangeSetPricing ((example_ctx [] None None [])\<lparr>payload := OtherEvent\<rparr>)
       (example_world [lbl ''Price: 1 USD'']) =
     (Returned, \<lparr>issue_labels = [lbl ''Price: 1 USD''], repo_labels = [], calls = [],
                 logs = [(Debug, ''Not an issue event'')]\<rparr>)"
proof -
  have h: "\<not> isIssueLabelEvent ((example_ctx [] None None [])\<lparr>payload := OtherEvent\<rparr>)"
    by (simp add: isIssueLabelEvent_def)
  show ?thesis
    using h not_issue_label_event_returns [OF h, of "example_world [lbl ''Price: 1 USD'']"]
    by (simp add: example_world_def)
qed

section \<open>Selection of the minimum labels\<close>

text \<open>
  C9. When the bucket of recognized time labels and the bucket of recognized priority
  labels are both non-empty, \<open>getMinLabels\<close> gives a time label and a priority label,
  each taken from its bucket. So \<open>setPriceLabel\<close> never reaches the branch that logs
  \<^verbatim>\<open>No label to calculate price\<close>: that entry is in the log after the call only if it
  was there before.
\<close>

theorem min_labels_defined_for_nonempty_buckets:
  "(time rl \<noteq> [] \<and> priority rl \<noteq> [] \<longrightarrow>
      (\<exists>t p. getMinLabels ctx rl = \<lparr>min_time = Some t, min_priority = Some p\<rparr> \<and>
             t \<in> set (time rl) \<and> p \<in> set (priority rl))) \<and>
   ((Error, ''No label to calculate price'') \<notin> set (logs w) \<longrightarrow>
      (Error, ''No label to calculate price'') \<notin> set (logs (snd (setPriceLabel ctx ls settings w))))"
proof (intro conjI impI)
  assume ne: "time rl \<noteq> [] \<and> priority rl \<noteq> []"
  then obtain t ts where t: "sortLabelsByValue ctx (time rl) = t # ts"
    using sortLabelsByValue_Nil_iff [of ctx "time rl"] by (cases "sortLabelsByValue ctx (time rl)") auto
  from ne obtain p ps where p: "sortLabelsByValue ctx (priority rl) = p # ps"
    using sortLabelsByValue_Nil_iff [of ctx "priority rl"]
    by (cases "sortLabelsByValue ctx (priority rl)") auto
  have "t \<in> set (time rl)" using t set_sortLabelsByValue [of ctx "time rl"] by auto
  moreover have "p \<in> set (priority rl)" using p set_sortLabelsByValue [of ctx "priority rl"] by auto
  moreover have "getMinLabels ctx rl = \<lparr>min_time = Some t, min_priority = Some p\<rparr>"
    using t p by (simp add: getMinLabels_def shift_def)
  ultimately show "\<exists>t p. getMinLabels ctx rl = \<lparr>min_time = Some t, min_priority = Some p\<rparr> \<and>
             t \<in> set (time rl) \<and> p \<in> set (priority rl)" by blast
next
  assume "(Error, ''No label to calculate price'') \<notin> set (logs w)"
  then show "(Error, ''No label to calculate price'') \<notin> set (logs (snd (setPriceLabel ctx ls settings w)))"
    using setPriceLabel_logs [of ctx ls settings w] by auto
qed

theorem min_labels_defined_for_nonempty_buckets_witness:
  "time \<lparr>time = [lbl ''Time: 1 Day''], priority = [lbl ''Priority: 1 (Normal)'']\<rparr> \<noteq> [] \<and>
   priority \<lparr>time = [lbl ''Time: 1 Day''], priority = [lbl ''Priority: 1 (Normal)'']\<rparr> \<noteq> [] \<and>
   getMinLabels (example_ctx [] None None [])
       \<lparr>time = [lbl ''Time: 1 Day''], priority = [lbl ''Priority: 1 (Normal)'']\<rparr> =
     \<lparr>min_time = Some (lbl ''Time: 1 Day''), min_priority = Some (lbl ''Priority: 1 (Normal)'')\<rparr> \<and>
   (Error, ''No label to calculate price'') \<notin> set (logs (example_world [])) \<and>
   (Error, ''No label to calculate price'') \<notin>
     set (logs (snd (setPriceLabel (example_ctx [] None None [])
        [lbl ''Time: 1 Day'', lbl ''Priority: 1 (Normal)''] example_config (example_world []))))"
  using min_labels_defined_for_nonempty_buckets
    [of "\<lparr>time = [lbl ''Time: 1 Day''], priority = [lbl ''Priority: 1 (Normal)'']\<rparr>"
        "example_ctx [] None None []" "example_world []"
        "[lbl ''Time: 1 Day'', lbl ''Priority: 1 (Normal)'']" example_config]
  by (auto simp: example_world_def)

section \<open>Issues that cannot be priced\<close>

text \<open>
  C6. When no label of the issue is a recognized time label, or none is a recognized
  priority label, \<open>setPriceLabel\<close> returns without throwing, its only call is the one
  that clears the price labels, the issue keeps exactly its labels that are not price
  labels, so no price label is left and none is added, and the repository's labels are
  untouched.
\<close>

theorem no_recognized_labels_clears_price_labels:
  "(\<forall>l \<in> set ls. name l \<notin> set (labels_time settings)) \<or>
   (\<forall>l \<in> set ls. name l \<notin> set (labels_priority settings)) \<Longrightarrow>
   fst (setPriceLabel ctx ls settings w) = Returned \<and>
   calls (snd (setPriceLabel ctx ls settings w)) = calls w @ [ClearAllPriceLabelsOnIssue] \<and>
   issue_labels (snd (setPriceLabel ctx ls settings w)) = filter (\<lambda>l. \<not> isPriceLabel l) (issue_labels w) \<and>
   filter isPriceLabel (issue_labels (snd (setPriceLabel ctx ls settings w))) = [] \<and>
   repo_labels (snd (setPriceLabel ctx ls settings w)) = repo_labels w"
proof -
  assume "(\<forall>l \<in> set ls. name l \<notin> set (labels_time settings)) \<or>
   (\<forall>l \<in> set ls. name l \<notin> set (labels_priority settings))"
  then have "time (getRecognizedLabels ls settings) = [] \<or> priority (getRecognizedLabels ls settings) = []"
    by (simp only: recognized_time_empty_iff recognized_priority_empty_iff)
  then have "setPriceLabel ctx ls settings w =
      clearAllPriceLabelsOnIssue ctx (log Error ''No recognized labels to calculate price'' w)"
    by (auto simp: setPriceLabel_def Let_def)
  then show ?thesis
    by (simp add: clearAllPriceLabelsOnIssue_def)
qed

theorem no_recognized_labels_clears_price_labels_witness:
  "name ` set [lbl ''Time: 1 Day'', lbl ''Price: 1 USD'', lbl ''bug''] \<inter> set (labels_priority example_config) = {} \<and>
   setPriceLabel (example_ctx [] None None []) [lbl ''Time: 1 Day'', lbl ''Price: 1 USD'', lbl ''bug'']
       example_config (example_world [lbl ''Time: 1 Day'', lbl ''Price: 1 USD'', lbl ''bug'']) =
     (Returned,
      \<lparr>issue_labels = [lbl ''Time: 1 Day'', lbl ''bug''], repo_labels = [],
        calls = [ClearAllPriceLabelsOnIssue],
        logs = [(Error, ''No recognized labels to calculate price'')]\<rparr>)"
proof -
  have h: "\<forall>l \<in> set [lbl ''Time: 1 Day'', lbl ''Price: 1 USD'', lbl ''bug'']. name l \<notin> set (labels_priority example_config)"
    by (simp add: example_defs)
  have e: "setPriceLabel (example_ctx [] None None []) [lbl ''Time: 1 Day'', lbl ''Price: 1 USD'', lbl ''bug'']
       example_config (example_world [lbl ''Time: 1 Day'', lbl ''Price: 1 USD'', lbl ''bug'']) =
     (Returned,
      \<lparr>issue_labels = [lbl ''Time: 1 Day'', lbl ''bug''], repo_labels = [],
        calls = [ClearAllPriceLabelsOnIssue],
        logs = [(Error, ''No recognized labels to calculate price'')]\<rparr>)"
    by (simp add: example_defs handler_defs)
  show ?thesis
    using h e no_recognized_labels_clears_price_labels [OF disjI2, OF h,
        of "example_ctx [] None None []" "example_world [lbl ''Time: 1 Day'', lbl ''Price: 1 USD'', lbl ''bug'']"]
    by (simp add: example_defs)
qed

text \<open>
  C7. When both minimum labels exist and the price calculator gives nothing for them,
  \<open>setPriceLabel\<close> returns without throwing, its only call is the one that clears
  the price labels of the issue, nothing is added to the issue or to the repository, and
  it logs that the action is skipped.
\<close>

theorem calculator_null_clears_price_labels:
  assumes "min_time (getMinLabels ctx (getRecognizedLabels ls settings)) = Some t"
    and "min_priority (getMinLabels ctx (getRecognizedLabels ls settings)) = Some p"
    and "setPrice ctx t p = None"
  shows "fst (setPriceLabel ctx ls settings w) = Returned \<and>
   calls (snd (setPriceLabel ctx ls settings w)) = calls w @ [ClearAllPriceLabelsOnIssue] \<and>
   issue_labels (snd (setPriceLabel ctx ls settings w)) = filter (\<lambda>l. \<not> isPriceLabel l) (issue_labels w) \<and>
   repo_labels (snd (setPriceLabel ctx ls settings w)) = repo_labels w \<and>
   logs (snd (setPriceLabel ctx ls settings w)) = logs w @ [(Info, ''Skipping action...'')]"
proof -
  have "time (getRecognizedLabels ls settings) \<noteq> []"
    using assms(1) getMinLabels_time_None_iff [of ctx "getRecognizedLabels ls settings"] by auto
  moreover have "priority (getRecognizedLabels ls settings) \<noteq> []"
    using assms(2) getMinLabels_priority_None_iff [of ctx "getRecognizedLabels ls settings"] by auto
  ultimately have "setPriceLabel ctx ls settings w =
      and_then (clearAllPriceLabelsOnIssue ctx) (\<lambda>w'. (Returned, log Info ''Skipping action...'' w')) w"
    using assms by (simp add: setPriceLabel_def Let_def)
  then show ?thesis
    by (simp add: and_then_def clearAllPriceLabelsOnIssue_def)
qed

theorem calculator_null_clears_price_labels_witness:
  "min_time (getMinLabels (example_ctx [] None None [])
      (getRecognizedLabels [lbl ''Price: 5 USD'', lbl ''Time: 1 Week'', lbl ''Priority: 1 (Normal)''] example_config)) =
     Some (lbl ''Time: 1 Week'') \<and>
   min_priority (getMinLabels (example_ctx [] None None [])
      (getRecognizedLabels [lbl ''Price: 5 USD'', lbl ''Time: 1 Week'', lbl ''Priority: 1 (Normal)''] example_config)) =
     Some (lbl ''Priority: 1 (Normal)'') \<and>
   setPrice (example_ctx [] None None []) (lbl ''Time: 1 Week'') (lbl ''Priority: 1 (Normal)'') = None \<and>
   fst (setPriceLabel (example_ctx [] None None [])
      [lbl ''Price: 5 USD'', lbl ''Time: 1 Week'', lbl ''Priority: 1 (Normal)''] example_config
      (example_world [lbl ''Price: 5 USD'', lbl ''Time: 1 Week'', lbl ''Priority: 1 (Normal)''])) = Returned \<and>
   calls (snd (setPriceLabel (example_ctx [] None None [])
      [lbl ''Price: 5 USD'', lbl ''Time: 1 Week'', lbl ''Priority: 1 (Normal)''] example_config
      (example_world [lbl ''Price: 5 USD'', lbl ''Time: 1 Week'', lbl ''Priority: 1 (Normal)'']))) =
     [ClearAllPriceLabelsOnIssue] \<and>
   issue_labels (snd (setPriceLabel (example_ctx [] None None [])
      [lbl ''Price: 5 USD'', lbl ''Time: 1 Week'', lbl ''Priority: 1 (Normal)''] example_config
      (example_world [lbl ''Price: 5 USD'', lbl ''Time: 1 Week'', lbl ''Priority: 1 (Normal)'']))) =
     [lbl ''Time: 1 Week'', lbl ''Priority: 1 (Normal)'']"
proof -
  have t: "min_time (getMinLabels (example_ctx [] None None [])
      (getRecognizedLabels [lbl ''Price: 5 USD'', lbl ''Time: 1 Week'', lbl ''Priority: 1 (Normal)''] example_config)) =
     Some (lbl ''Time: 1 Week'')"
    by (simp add: example_defs handler_defs)
  have p: "min_priority (getMinLabels (example_ctx [] None None [])
      (getRecognizedLabels [lbl ''Price: 5 USD'', lbl ''Time: 1 Week'', lbl ''Priority: 1 (Normal)''] example_config)) =
     Some (lbl ''Priority: 1 (Normal)'')"
    by (simp add: example_defs handler_defs)
  have n: "setPrice (example_ctx [] None None []) (lbl ''Time: 1 Week'') (lbl ''Priority: 1 (Normal)'') = None"
    by (simp add: example_defs handler_defs)
  have f: "filter (\<lambda>l. \<not> isPriceLabel l) [lbl ''Price: 5 USD'', lbl ''Time: 1 Week'', lbl ''Priority: 1 (Normal)''] =
      [lbl ''Time: 1 Week'', lbl ''Priority: 1 (Normal)'']"
    by (simp add: example_defs handler_defs)
  show ?thesis
    using t p n f calculator_null_clears_price_labels [OF t p n,
        of "example_world [lbl ''Price: 5 USD'', lbl ''Time: 1 Week'', lbl ''Priority: 1 (Normal)'']"]
    by (simp add: example_world_def)
qed

section \<open>A target that is already on the issue\<close>

text \<open>
  C3, as the code has it. When a target price is derived and a label of the issue
  matches it, \<open>setPriceLabel\<close> looks at the labeled events whose label name contains
  \<^verbatim>\<open>Price\<close>. If there is no such event, or if the actor of the last one is a human, it
  issues no call and the labels of the issue stay as they are. Otherwise it replaces: it
  clears the price labels and then adds the target, and the issue has its other labels
  followed by the target. In each case it returns without throwing.
\<close>

theorem existing_price_label_skip_or_replace:
  assumes "isIssueLabelEvent ctx"
    and "min_time (getMinLabels ctx (getRecognizedLabels ls settings)) = Some t"
    and "min_priority (getMinLabels ctx (getRecognizedLabels ls settings)) = Some p"
    and "setPrice ctx t p = Some target"
    and "list_ex (matchesTarget target) (map name ls)"
  shows "fst (setPriceLabel ctx ls settings w) = Returned \<and>
     calls (snd (setPriceLabel ctx ls settings w)) =
       (if priceLabeledEvents ctx = [] \<or> lastPriceActorIsHuman ctx then calls w
        else calls w @ [ClearAllPriceLabelsOnIssue, AddLabelToIssue target]) \<and>
     issue_labels (snd (setPriceLabel ctx ls settings w)) =
       (if priceLabeledEvents ctx = [] \<or> lastPriceActorIsHuman ctx then issue_labels w
        else filter (\<lambda>l. \<not> isPriceLabel l) (issue_labels w) @ [\<lparr>name = target\<rparr>])"
proof -
  have eq: "setPriceLabel ctx ls settings w = handleExistingPriceLabel ctx target w"
    using setPriceLabel_target [OF assms(2-4)] handleTargetPriceLabel_existing [OF assms(5)] by simp
  show ?thesis
  proof (cases "priceLabeledEvents ctx = [] \<or> lastPriceActorIsHuman ctx")
    case True
    then show ?thesis
      using handleExistingPriceLabel_skip [OF assms(1) True, of target w] eq by simp
  next
    case False
    have price: "isPriceLabel \<lparr>name = target\<rparr>" using assms(4) by (rule setPrice_Some)
    from False have "handleExistingPriceLabel ctx target w =
        addPriceLabelToIssue ctx target
          (case listEvents ctx of None \<Rightarrow> log Fatal ''Failed to fetch lists of events'' w | Some es \<Rightarrow> w)"
      using handleExistingPriceLabel_replace [OF assms(1)] by simp
    with False eq show ?thesis
      by (simp add: addPriceLabelToIssue_price [OF price] split: option.splits)
  qed
qed

theorem existing_price_label_skip_or_replace_witness:
  "isIssueLabelEvent (example_ctx [] None (Some [labeled_by ''User'' ''Price: 2 USD'', labeled_by ''Bot'' ''Price: 1 USD'']) []) \<and>
   setPrice (example_ctx [] None (Some [labeled_by ''User'' ''Price: 2 USD'', labeled_by ''Bot'' ''Price: 1 USD'']) [])
     (lbl ''Time: 1 Day'') (lbl ''Priority: 1 (Normal)'') = Some ''Price: 1 USD'' \<and>
   list_ex (matchesTarget ''Price: 1 USD'')
     (map name [lbl ''Time: 1 Day'', lbl ''Priority: 1 (Normal)'', lbl ''Price: 2 USD'', lbl ''Price: 1 USD'']) \<and>
   \<not> lastPriceActorIsHuman (example_ctx [] None (Some [labeled_by ''User'' ''Price: 2 USD'', labeled_by ''Bot'' ''Price: 1 USD'']) []) \<and>
   calls (snd (setPriceLabel (example_ctx [] None (Some [labeled_by ''User'' ''Price: 2 USD'', labeled_by ''Bot'' ''Price: 1 USD'']) [])
     [lbl ''Time: 1 Day'', lbl ''Priority: 1 (Normal)'', lbl ''Price: 2 USD'', lbl ''Price: 1 USD''] example_config
     (example_world [lbl ''Time: 1 Day'', lbl ''Priority: 1 (Normal)'', lbl ''Price: 2 USD'', lbl ''Price: 1 USD'']))) =
     [ClearAllPriceLabelsOnIssue, AddLabelToIssue ''Price: 1 USD''] \<and>
   issue_labels (snd (setPriceLabel (example_ctx [] None (Some [labeled_by ''User'' ''Price: 2 USD'', labeled_by ''Bot'' ''Price: 1 USD'']) [])
     [lbl ''Time: 1 Day'', lbl ''Priority: 1 (Normal)'', lbl ''Price: 2 USD'', lbl ''Price: 1 USD''] example_config
     (example_world [lbl ''Time: 1 Day'', lbl ''Priority: 1 (Normal)'', lbl ''Price: 2 USD'', lbl ''Price: 1 USD'']))) =
     [lbl ''Time: 1 Day'', lbl ''Priority: 1 (Normal)'', lbl ''Price: 1 USD'']"
proof -
  let ?ctx = "example_ctx [] None (Some [labeled_by ''User'' ''Price: 2 USD'', labeled_by ''Bot'' ''Price: 1 USD'']) []"
  let ?ls = "[lbl ''Time: 1 Day'', lbl ''Priority: 1 (Normal)'', lbl ''Price: 2 USD'', lbl ''Price: 1 USD'']"
  have e: "isIssueLabelEvent ?ctx"
    by (simp add: example_defs isIssueLabelEvent_def)
  have t: "min_time (getMinLabels ?ctx (getRecognizedLabels ?ls example_config)) = Some (lbl ''Time: 1 Day'')"
    by (simp add: example_defs handler_defs)
  have p: "min_priority (getMinLabels ?ctx (getRecognizedLabels ?ls example_config)) = Some (lbl ''Priority: 1 (Normal)'')"
    by (simp add: example_defs handler_defs)
  have s: "setPrice ?ctx (lbl ''Time: 1 Day'') (lbl ''Priority: 1 (Normal)'') = Some ''Price: 1 USD''"
    by (simp add: example_defs handler_defs)
  have m: "list_ex (matchesTarget ''Price: 1 USD'') (map name ?ls)"
    by (simp add: example_defs matchesTarget_def)
  have pe: "priceLabeledEvents ?ctx = [labeled_by ''User'' ''Price: 2 USD'', labeled_by ''Bot'' ''Price: 1 USD'']"
    by (simp add: example_defs priceLabeledEvents_def isPriceLabeledEvent_def)
  have h: "\<not> lastPriceActorIsHuman ?ctx"
    unfolding lastPriceActorIsHuman_def pe by (simp add: example_defs)
  have f: "filter (\<lambda>l. \<not> isPriceLabel l) ?ls = [lbl ''Time: 1 Day'', lbl ''Priority: 1 (Normal)'']"
    by (simp add: example_defs isPriceLabel_def)
  show ?thesis
    using e s m h pe f existing_price_label_skip_or_replace [OF e t p s m, of "example_world ?ls"]
    by (simp add: example_world_def lbl_def)
qed

text \<open>
  C3 as stated has the engine replace when there is no price labeling in the history.
  On an issue that carries the target and has an empty event log, the handler only logs
  \<^verbatim>\<open>No price labeled events found\<close> and issues no call.
\<close>

theorem no_price_history_counterexample:
  "list_ex (matchesTarget ''Price: 1 USD'')
     (map name [lbl ''Time: 1 Day'', lbl ''Priority: 1 (Normal)'', lbl ''Price: 1 USD'']) \<and>
   priceLabeledEvents (example_ctx [] None (Some []) []) = [] \<and>
   setPriceLabel (example_ctx [] None (Some []) [])
     [lbl ''Time: 1 Day'', lbl ''Priority: 1 (Normal)'', lbl ''Price: 1 USD''] example_config
     (example_world [lbl ''Time: 1 Day'', lbl ''Priority: 1 (Normal)'', lbl ''Price: 1 USD'']) =
   (Returned,
    \<lparr>issue_labels = [lbl ''Time: 1 Day'', lbl ''Priority: 1 (Normal)'', lbl ''Price: 1 USD''],
      repo_labels = [], calls = [], logs = [(Error, ''No price labeled events found'')]\<rparr>)"
  by (simp add: example_defs handler_defs)

section \<open>Looking for the target among the labels\<close>

text \<open>
  C5, as the code has it. \<open>handleTargetPriceLabel\<close> takes the target as present on
  the issue when the name of some label of the issue contains \<^verbatim>\<open>Price\<close> and contains
  the target, and then does what \<open>handleExistingPriceLabel\<close> does. Otherwise it
  creates the label in the repository exactly when the name of no label of the
  repository contains the target, and then clears the price labels of the issue and adds
  the target.
\<close>

theorem target_presence_by_containment:
  "(list_ex (matchesTarget target) names \<longrightarrow>
      handleTargetPriceLabel ctx target names w = handleExistingPriceLabel ctx target w) \<and>
   (\<not> list_ex (matchesTarget target) names \<longrightarrow>
      fst (handleTargetPriceLabel ctx target names w) = Returned \<and>
      calls (snd (handleTargetPriceLabel ctx target names w)) =
        calls w @
        (if list_ex (\<lambda>i. string_includes (name i) target) (repo_labels w) then []
         else [CreateLabel target ''price'']) @
        [ClearAllPriceLabelsOnIssue, AddLabelToIssue target] \<and>
      repo_labels (snd (handleTargetPriceLabel ctx target names w)) =
        (if list_ex (\<lambda>i. string_includes (name i) target) (repo_labels w) then repo_labels w
         else repo_labels w @ [\<lparr>name = target\<rparr>]))"
proof (intro conjI impI)
  assume "list_ex (matchesTarget target) names"
  then show "handleTargetPriceLabel ctx target names w = handleExistingPriceLabel ctx target w"
    by (rule handleTargetPriceLabel_existing)
next
  assume a: "\<not> list_ex (matchesTarget target) names"
  show "fst (handleTargetPriceLabel ctx target names w) = Returned"
    by (simp add: handleTargetPriceLabel_absent [OF a] and_then_def createLabel_def
        addPriceLabelToIssue_calls)
  show "calls (snd (handleTargetPriceLabel ctx target names w)) =
        calls w @
        (if list_ex (\<lambda>i. string_includes (name i) target) (repo_labels w) then []
         else [CreateLabel target ''price'']) @
        [ClearAllPriceLabelsOnIssue, AddLabelToIssue target]"
    by (simp add: handleTargetPriceLabel_absent [OF a] and_then_def createLabel_def
        addPriceLabelToIssue_calls)
  show "repo_labels (snd (handleTargetPriceLabel ctx target names w)) =
        (if list_ex (\<lambda>i. string_includes (name i) target) (repo_labels w) then repo_labels w
         else repo_labels w @ [\<lparr>name = target\<rparr>])"
    by (simp add: handleTargetPriceLabel_absent [OF a] and_then_def createLabel_def
        addPriceLabelToIssue_calls)
qed

theorem target_presence_by_containment_witness:
  "list_ex (matchesTarget ''Price: 1 USD'') [''Time: 1 Day'', ''Price: 1 USD''] \<and>
   handleTargetPriceLabel (example_ctx [] None (Some []) []) ''Price: 1 USD'' [''Time: 1 Day'', ''Price: 1 USD'']
       (example_world []) =
     handleExistingPriceLabel (example_ctx [] None (Some []) []) ''Price: 1 USD'' (example_world []) \<and>
   \<not> list_ex (matchesTarget ''Price: 1 USD'') [''Time: 1 Day'', ''Price: 2 USD''] \<and>
   calls (snd (handleTargetPriceLabel (example_ctx [] None (Some []) []) ''Price: 1 USD''
       [''Time: 1 Day'', ''Price: 2 USD''] (example_world []))) =
     [CreateLabel ''Price: 1 USD'' ''price'', ClearAllPriceLabelsOnIssue, AddLabelToIssue ''Price: 1 USD''] \<and>
   repo_labels (snd (handleTargetPriceLabel (example_ctx [] None (Some []) []) ''Price: 1 USD''
       [''Time: 1 Day'', ''Price: 2 USD''] (example_world []))) = [lbl ''Price: 1 USD'']"
proof -
  have a: "list_ex (matchesTarget ''Price: 1 USD'') [''Time: 1 Day'', ''Price: 1 USD'']"
    by (simp add: matchesTarget_def)
  have b: "\<not> list_ex (matchesTarget ''Price: 1 USD'') [''Time: 1 Day'', ''Price: 2 USD'']"
    by (simp add: matchesTarget_def)
  show ?thesis
    using a b
      target_presence_by_containment [of "''Price: 1 USD''" "[''Time: 1 Day'', ''Price: 1 USD'']"
        "example_ctx [] None (Some []) []" "example_world []"]
      target_presence_by_containment [of "''Price: 1 USD''" "[''Time: 1 Day'', ''Price: 2 USD'']"
        "example_ctx [] None (Some []) []" "example_world []"]
    by (simp add: example_world_def lbl_def)
qed

text \<open>
  C5 as stated decides by equality of names. With the target \<^verbatim>\<open>Price: 1 USD\<close>, an issue
  whose only price label is \<^verbatim>\<open>Price: 1 USD (legacy)\<close> carries no label named as the
  target, yet the handler takes the target as present and, the last price labeling being
  a human's, issues no call. And a repository whose only label is
  \<^verbatim>\<open>Price: 1 USD (legacy)\<close> has no label named as the target, yet the handler does not
  create one.
\<close>

theorem exact_name_equality_counterexample:
  "''Price: 1 USD'' \<notin> set [''Time: 1 Day'', ''Price: 1 USD (legacy)''] \<and>
   calls (snd (handleTargetPriceLabel (example_ctx [] None (Some [labeled_by ''User'' ''Price: 1 USD (legacy)'']) [])
       ''Price: 1 USD'' [''Time: 1 Day'', ''Price: 1 USD (legacy)'']
       (example_world [lbl ''Time: 1 Day'', lbl ''Price: 1 USD (legacy)'']))) = [] \<and>
   ''Price: 1 USD'' \<notin> set (map name (repo_labels ((example_world [])\<lparr>repo_labels := [lbl ''Price: 1 USD (legacy)'']\<rparr>))) \<and>
   calls (snd (handleTargetPriceLabel (example_ctx [] None (Some []) []) ''Price: 1 USD'' [''Time: 1 Day'']
       ((example_world [])\<lparr>repo_labels := [lbl ''Price: 1 USD (legacy)'']\<rparr>))) =
     [ClearAllPriceLabelsOnIssue, AddLabelToIssue ''Price: 1 USD'']"
  by (simp add: example_defs handler_defs)

section \<open>One price label after reconciliation\<close>

text \<open>
  C1, as the code has it. Take an invocation for an issue that is not a parent, with
  permission to set labels, triggered by a label that is not a price label, whose labels
  have a smallest recognized time label and a smallest recognized priority label for
  which the calculator gives a target. If no label of the issue matches the target, or
  if the last labeling of a price label in the history was not done by a human, then the
  handler returns and exactly one price label is on the issue afterwards, the target,
  however many price labels were there before; the other labels of the issue are kept.
\<close>

theorem one_price_label_after_replacement:
  assumes "payload ctx = IssueLabelEvent i trig" and "labels i = Some ls"
    and "\<not> issueIsParent ctx i" and "labelAccessPermissionsCheck ctx"
    and "\<not> isPayloadToSetPrice trig"
    and "min_time (getMinLabels ctx (getRecognizedLabels ls (config ctx))) = Some t"
    and "min_priority (getMinLabels ctx (getRecognizedLabels ls (config ctx))) = Some p"
    and "setPrice ctx t p = Some target"
    and "\<not> list_ex (matchesTarget target) (map name ls) \<or>
         (priceLabeledEvents ctx \<noteq> [] \<and> \<not> lastPriceActorIsHuman ctx)"
  shows "fst (onLabelChangeSetPricing ctx w) = Returned \<and>
     filter isPriceLabel (issue_labels (snd (onLabelChangeSetPricing ctx w))) = [\<lparr>name = target\<rparr>] \<and>
     issue_labels (snd (onLabelChangeSetPricing ctx w)) =
       filter (\<lambda>l. \<not> isPriceLabel l) (issue_labels w) @ [\<lparr>name = target\<rparr>]"
proof -
  have price: "isPriceLabel \<lparr>name = target\<rparr>" using assms(8) by (rule setPrice_Some)
  have ev: "isIssueLabelEvent ctx" using assms(1) by (simp add: isIssueLabelEvent_def)
  have eq: "onLabelChangeSetPricing ctx w = handleTargetPriceLabel ctx target (map name ls) w"
    using onLabelChangeSetPricing_reconcile [OF assms(1-4)] assms(5) setPriceLabel_target [OF assms(6-8)]
    by simp
  have res: "fst (onLabelChangeSetPricing ctx w) = Returned \<and>
     issue_labels (snd (onLabelChangeSetPricing ctx w)) =
       filter (\<lambda>l. \<not> isPriceLabel l) (issue_labels w) @ [\<lparr>name = target\<rparr>]"
  proof (cases "list_ex (matchesTarget target) (map name ls)")
    case True
    with assms(9) have "priceLabeledEvents ctx \<noteq> []" and "\<not> lastPriceActorIsHuman ctx" by auto
    then have "handleExistingPriceLabel ctx target w =
        addPriceLabelToIssue ctx target
          (case listEvents ctx of None \<Rightarrow> log Fatal ''Failed to fetch lists of events'' w | Some es \<Rightarrow> w)"
      by (rule handleExistingPriceLabel_replace [OF ev])
    then show ?thesis
      using eq handleTargetPriceLabel_existing [OF True]
      by (simp add: addPriceLabelToIssue_price [OF price] split: option.splits)
  next
    case False
    show ?thesis
      using eq
      by (simp add: handleTargetPriceLabel_absent [OF False] and_then_def createLabel_def
          addPriceLabelToIssue_price [OF price])
  qed
  moreover have "filter isPriceLabel (filter (\<lambda>l. \<not> isPriceLabel l) (issue_labels w) @ [\<lparr>name = target\<rparr>]) =
      [\<lparr>name = target\<rparr>]"
    using price by (simp add: filter_empty_conv)
  ultimately show ?thesis by simp
qed

theorem one_price_label_after_replacement_witness:
  "payload (example_ctx [lbl ''Price: 5 USD'', lbl ''Time: 1 Day'', lbl ''Price: 2 USD'', lbl ''Priority: 1 (Normal)'']
       (Some (lbl ''Time: 1 Day'')) (Some [labeled_by ''User'' ''Price: 5 USD'']) []) =
     IssueLabelEvent
       \<lparr>body = None, labels = Some [lbl ''Price: 5 USD'', lbl ''Time: 1 Day'', lbl ''Price: 2 USD'', lbl ''Priority: 1 (Normal)'']\<rparr>
       (Some (lbl ''Time: 1 Day'')) \<and>
   \<not> isPayloadToSetPrice (Some (lbl ''Time: 1 Day'')) \<and>
   setPrice (example_ctx [lbl ''Price: 5 USD'', lbl ''Time: 1 Day'', lbl ''Price: 2 USD'', lbl ''Priority: 1 (Normal)'']
       (Some (lbl ''Time: 1 Day'')) (Some [labeled_by ''User'' ''Price: 5 USD'']) [])
     (lbl ''Time: 1 Day'') (lbl ''Priority: 1 (Normal)'') = Some ''Price: 1 USD'' \<and>
   \<not> list_ex (matchesTarget ''Price: 1 USD'')
       (map name [lbl ''Price: 5 USD'', lbl ''Time: 1 Day'', lbl ''Price: 2 USD'', lbl ''Priority: 1 (Normal)'']) \<and>
   fst (onLabelChangeSetPricing
     (example_ctx [lbl ''Price: 5 USD'', lbl ''Time: 1 Day'', lbl ''Price: 2 USD'', lbl ''Priority: 1 (Normal)'']
       (Some (lbl ''Time: 1 Day'')) (Some [labeled_by ''User'' ''Price: 5 USD'']) [])
     (example_world [lbl ''Price: 5 USD'', lbl ''Time: 1 Day'', lbl ''Price: 2 USD'', lbl ''Priority: 1 (Normal)''])) =
     Returned \<and>
   filter isPriceLabel (issue_labels (snd (onLabelChangeSetPricing
     (example_ctx [lbl ''Price: 5 USD'', lbl ''Time: 1 Day'', lbl ''Price: 2 USD'', lbl ''Priority: 1 (Normal)'']
       (Some (lbl ''Time: 1 Day'')) (Some [labeled_by ''User'' ''Price: 5 USD'']) [])
     (example_world [lbl ''Price: 5 USD'', lbl ''Time: 1 Day'', lbl ''Price: 2 USD'', lbl ''Priority: 1 (Normal)''])))) =
     [lbl ''Price: 1 USD''] \<and>
   issue_labels (snd (onLabelChangeSetPricing
     (example_ctx [lbl ''Price: 5 USD'', lbl ''Time: 1 Day'', lbl ''Price: 2 USD'', lbl ''Priority: 1 (Normal)'']
       (Some (lbl ''Time: 1 Day'')) (Some [labeled_by ''User'' ''Price: 5 USD'']) [])
     (example_world [lbl ''Price: 5 USD'', lbl ''Time: 1 Day'', lbl ''Price: 2 USD'', lbl ''Priority: 1 (Normal)'']))) =
     [lbl ''Time: 1 Day'', lbl ''Priority: 1 (Normal)'', lbl ''Price: 1 USD'']"
proof -
  let ?ls = "[lbl ''Price: 5 USD'', lbl ''Time: 1 Day'', lbl ''Price: 2 USD'', lbl ''Priority: 1 (Normal)'']"
  let ?i = "\<lparr>body = None, labels = Some ?ls\<rparr>"
  let ?ctx = "example_ctx ?ls (Some (lbl ''Time: 1 Day'')) (Some [labeled_by ''User'' ''Price: 5 USD'']) []"
  have a1: "payload ?ctx = IssueLabelEvent ?i (Some (lbl ''Time: 1 Day''))"
    by (simp add: example_ctx_def)
  have a2: "labels ?i = Some ?ls" by simp
  have a3: "\<not> issueIsParent ?ctx ?i" by (simp add: issueIsParent_def)
  have a4: "labelAccessPermissionsCheck ?ctx" by (simp add: example_ctx_def)
  have a5: "\<not> isPayloadToSetPrice (Some (lbl ''Time: 1 Day''))"
    by (simp add: isPayloadToSetPrice_def lbl_def)
  have a6: "min_time (getMinLabels ?ctx (getRecognizedLabels ?ls (config ?ctx))) = Some (lbl ''Time: 1 Day'')"
    by (simp add: example_defs handler_defs)
  have a7: "min_priority (getMinLabels ?ctx (getRecognizedLabels ?ls (config ?ctx))) = Some (lbl ''Priority: 1 (Normal)'')"
    by (simp add: example_defs handler_defs)
  have a8: "setPrice ?ctx (lbl ''Time: 1 Day'') (lbl ''Priority: 1 (Normal)'') = Some ''Price: 1 USD''"
    by (simp add: example_defs handler_defs)
  have a9: "\<not> list_ex (matchesTarget ''Price: 1 USD'') (map name ?ls)"
    by (simp add: example_defs matchesTarget_def)
  have f: "filter (\<lambda>l. \<not> isPriceLabel l) ?ls = [lbl ''Time: 1 Day'', lbl ''Priority: 1 (Normal)'']"
    by (simp add: example_defs isPriceLabel_def)
  show ?thesis
    using a1 a5 a8 a9 f
      one_price_label_after_replacement [OF a1 a2 a3 a4 a5 a6 a7 a8 disjI1, OF a9, of "example_world ?ls"]
    by (simp add: example_world_def lbl_def isPriceLabel_def)
qed

text \<open>
  C1 as stated holds whoever did the last price labeling. On an issue that has a
  recognized time label, a recognized priority label, the target \<^verbatim>\<open>Price: 1 USD\<close> and
  also \<^verbatim>\<open>Price: 2 USD\<close>, the last of them set by a human, the handler returns without a
  call, and both price labels are still on the issue.
\<close>

theorem human_override_counterexample:
  "fst (onLabelChangeSetPricing
     (example_ctx [lbl ''Time: 1 Day'', lbl ''Priority: 1 (Normal)'', lbl ''Price: 1 USD'', lbl ''Price: 2 USD'']
       (Some (lbl ''Time: 1 Day'')) (Some [labeled_by ''User'' ''Price: 2 USD'']) [])
     (example_world [lbl ''Time: 1 Day'', lbl ''Priority: 1 (Normal)'', lbl ''Price: 1 USD'', lbl ''Price: 2 USD''])) =
     Returned \<and>
   calls (snd (onLabelChangeSetPricing
     (example_ctx [lbl ''Time: 1 Day'', lbl ''Priority: 1 (Normal)'', lbl ''Price: 1 USD'', lbl ''Price: 2 USD'']
       (Some (lbl ''Time: 1 Day'')) (Some [labeled_by ''User'' ''Price: 2 USD'']) [])
     (example_world [lbl ''Time: 1 Day'', lbl ''Priority: 1 (Normal)'', lbl ''Price: 1 USD'', lbl ''Price: 2 USD'']))) = [] \<and>
   filter isPriceLabel (issue_labels (snd (onLabelChangeSetPricing
     (example_ctx [lbl ''Time: 1 Day'', lbl ''Priority: 1 (Normal)'', lbl ''Price: 1 USD'', lbl ''Price: 2 USD'']
       (Some (lbl ''Time: 1 Day'')) (Some [labeled_by ''User'' ''Price: 2 USD'']) [])
     (example_world [lbl ''Time: 1 Day'', lbl ''Priority: 1 (Normal)'', lbl ''Price: 1 USD'', lbl ''Price: 2 USD''])))) =
     [lbl ''Price: 1 USD'', lbl ''Price: 2 USD'']"
  by (simp add: example_defs handler_defs)


section \<open>Running the reconciliation again\<close>

text \<open>
  C2, as the code has it. On a second run, where the target is already a label of the
  issue and the last labeling of a price label was not done by a human,
  \<open>setPriceLabel\<close> issues exactly two calls again, the one that clears the price
  labels and then the one that adds the target. The labels of the repository are
  untouched, and when the issue held the target as its last label and no other price
  label, as the first run leaves it, its labels after the second run are the same.
\<close>

theorem second_run_replaces_again:
  assumes "isIssueLabelEvent ctx"
    and "min_time (getMinLabels ctx (getRecognizedLabels ls settings)) = Some t"
    and "min_priority (getMinLabels ctx (getRecognizedLabels ls settings)) = Some p"
    and "setPrice ctx t p = Some target"
    and "target \<in> set (map name ls)"
    and "priceLabeledEvents ctx \<noteq> []"
    and "\<not> lastPriceActorIsHuman ctx"
  shows "fst (setPriceLabel ctx ls settings w) = Returned \<and>
     calls (snd (setPriceLabel ctx ls settings w)) =
       calls w @ [ClearAllPriceLabelsOnIssue, AddLabelToIssue target] \<and>
     repo_labels (snd (setPriceLabel ctx ls settings w)) = repo_labels w \<and>
     (issue_labels w = others @ [\<lparr>name = target\<rparr>] \<and> filter isPriceLabel others = [] \<longrightarrow>
        issue_labels (snd (setPriceLabel ctx ls settings w)) = issue_labels w)"
proof -
  have price: "isPriceLabel \<lparr>name = target\<rparr>" using assms(4) by (rule setPrice_Some)
  have "string_includes target ''Price''" using assms(4) by (rule setPrice_Some)
  moreover have "string_includes target target"
    unfolding string_includes_iff by (metis append_Nil append_Nil2)
  ultimately have m: "list_ex (matchesTarget target) (map name ls)"
    using assms(5) by (auto simp: list_ex_iff matchesTarget_def)
  have "setPriceLabel ctx ls settings w = handleExistingPriceLabel ctx target w"
    using setPriceLabel_target [OF assms(2-4)] handleTargetPriceLabel_existing [OF m] by simp
  then have eq: "setPriceLabel ctx ls settings w =
      addPriceLabelToIssue ctx target
        (case listEvents ctx of None \<Rightarrow> log Fatal ''Failed to fetch lists of events'' w | Some es \<Rightarrow> w)"
    using handleExistingPriceLabel_replace [OF assms(1,6,7)] by simp
  have keep: "filter (\<lambda>l. \<not> isPriceLabel l) (others @ [\<lparr>name = target\<rparr>]) = others"
    if "filter isPriceLabel others = []"
    using that price by (simp add: filter_empty_conv filter_id_conv)
  show ?thesis
    using keep by (auto simp: eq addPriceLabelToIssue_price [OF price] split: option.splits)
qed

theorem second_run_replaces_again_witness:
  "isIssueLabelEvent (example_ctx [] None (Some [labeled_by ''Bot'' ''Price: 1 USD'']) []) \<and>
   setPrice (example_ctx [] None (Some [labeled_by ''Bot'' ''Price: 1 USD'']) [])
     (lbl ''Time: 1 Day'') (lbl ''Priority: 1 (Normal)'') = Some ''Price: 1 USD'' \<and>
   ''Price: 1 USD'' \<in> set (map name [lbl ''Time: 1 Day'', lbl ''Priority: 1 (Normal)'', lbl ''Price: 1 USD'']) \<and>
   priceLabeledEvents (example_ctx [] None (Some [labeled_by ''Bot'' ''Price: 1 USD'']) []) =
     [labeled_by ''Bot'' ''Price: 1 USD''] \<and>
   \<not> lastPriceActorIsHuman (example_ctx [] None (Some [labeled_by ''Bot'' ''Price: 1 USD'']) []) \<and>
   calls (snd (setPriceLabel (example_ctx [] None (Some [labeled_by ''Bot'' ''Price: 1 USD'']) [])
     [lbl ''Time: 1 Day'', lbl ''Priority: 1 (Normal)'', lbl ''Price: 1 USD''] example_config
     (example_world [lbl ''Time: 1 Day'', lbl ''Priority: 1 (Normal)'', lbl ''Price: 1 USD'']))) =
     [ClearAllPriceLabelsOnIssue, AddLabelToIssue ''Price: 1 USD''] \<and>
   issue_labels (snd (setPriceLabel (example_ctx [] None (Some [labeled_by ''Bot'' ''Price: 1 USD'']) [])
     [lbl ''Time: 1 Day'', lbl ''Priority: 1 (Normal)'', lbl ''Price: 1 USD''] example_config
     (example_world [lbl ''Time: 1 Day'', lbl ''Priority: 1 (Normal)'', lbl ''Price: 1 USD'']))) =
     [lbl ''Time: 1 Day'', lbl ''Priority: 1 (Normal)'', lbl ''Price: 1 USD'']"
proof -
  let ?ctx = "example_ctx [] None (Some [labeled_by ''Bot'' ''Price: 1 USD'']) []"
  let ?ls = "[lbl ''Time: 1 Day'', lbl ''Priority: 1 (Normal)'', lbl ''Price: 1 USD'']"
  have e: "isIssueLabelEvent ?ctx"
    by (simp add: example_defs isIssueLabelEvent_def)
  have t: "min_time (getMinLabels ?ctx (getRecognizedLabels ?ls example_config)) = Some (lbl ''Time: 1 Day'')"
    by (simp add: example_defs handler_defs)
  have p: "min_priority (getMinLabels ?ctx (getRecognizedLabels ?ls example_config)) = Some (lbl ''Priority: 1 (Normal)'')"
    by (simp add: example_defs handler_defs)
  have s: "setPrice ?ctx (lbl ''Time: 1 Day'') (lbl ''Priority: 1 (Normal)'') = Some ''Price: 1 USD''"
    by (simp add: example_defs handler_defs)
  have m: "''Price: 1 USD'' \<in> set (map name ?ls)"
    by (simp add: lbl_def)
  have pe: "priceLabeledEvents ?ctx = [labeled_by ''Bot'' ''Price: 1 USD'']"
    by (simp add: example_defs priceLabeledEvents_def isPriceLabeledEvent_def)
  have ne: "priceLabeledEvents ?ctx \<noteq> []"
    unfolding pe by simp
  have h: "\<not> lastPriceActorIsHuman ?ctx"
    unfolding lastPriceActorIsHuman_def pe by (simp add: example_defs)
  have w: "issue_labels (example_world ?ls) = [lbl ''Time: 1 Day'', lbl ''Priority: 1 (Normal)''] @ [\<lparr>name = ''Price: 1 USD''\<rparr>]"
    by (simp add: example_world_def lbl_def)
  have o: "filter isPriceLabel [lbl ''Time: 1 Day'', lbl ''Priority: 1 (Normal)''] = []"
    by (simp add: isPriceLabel_def lbl_def)
  show ?thesis
    using e s m pe h w o
      second_run_replaces_again [OF e t p s m ne h, of "example_world ?ls"
        "[lbl ''Time: 1 Day'', lbl ''Priority: 1 (Normal)'']"]
    by (simp add: example_world_def lbl_def)
qed

text \<open>
  C2 as stated has no call on the second run. A first run on an issue with a time label
  and a priority label creates the target, clears the price labels and adds the target;
  a second run on the labels that this leaves, the last price labeling being the
  automation's, clears and adds once more.
\<close>

theorem second_run_counterexample:
  "onLabelChangeSetPricing
     (example_ctx [lbl ''Time: 1 Day'', lbl ''Priority: 1 (Normal)''] (Some (lbl ''Time: 1 Day'')) (Some []) [])
     (example_world [lbl ''Time: 1 Day'', lbl ''Priority: 1 (Normal)'']) =
   (Returned,
    \<lparr>issue_labels = [lbl ''Time: 1 Day'', lbl ''Priority: 1 (Normal)'', lbl ''Price: 1 USD''],
      repo_labels = [lbl ''Price: 1 USD''],
      calls = [CreateLabel ''Price: 1 USD'' ''price'', ClearAllPriceLabelsOnIssue, AddLabelToIssue ''Price: 1 USD''],
      logs = []\<rparr>) \<and>
   onLabelChangeSetPricing
     (example_ctx [lbl ''Time: 1 Day'', lbl ''Priority: 1 (Normal)'', lbl ''Price: 1 USD'']
        (Some (lbl ''Time: 1 Day'')) (Some [labeled_by ''Bot'' ''Price: 1 USD'']) [])
     \<lparr>issue_labels = [lbl ''Time: 1 Day'', lbl ''Priority: 1 (Normal)'', lbl ''Price: 1 USD''],
       repo_labels = [lbl ''Price: 1 USD''], calls = [], logs = []\<rparr> =
   (Returned,
    \<lparr>issue_labels = [lbl ''Time: 1 Day'', lbl ''Priority: 1 (Normal)'', lbl ''Price: 1 USD''],
      repo_labels = [lbl ''Price: 1 USD''],
      calls = [ClearAllPriceLabelsOnIssue, AddLabelToIssue ''Price: 1 USD''],
      logs = []\<rparr>)"
  by (simp add: example_defs handler_defs)

section \<open>A price label set directly\<close>





section \<open>A removal that fails\<close>

text \<open>
  C8, as the code has it. In an invocation that removes the price labels other than the
  smallest, when the removal of one of them is rejected and the removals before it were
  not, the handler throws the error of the rejected request: the removal calls up to and
  including the rejected one were issued and none after it, the labels removed before it
  are gone from the issue, and the log holds nothing about the failure.
\<close>

theorem rejected_removal_aborts_and_throws:
  assumes "payload ctx = IssueLabelEvent i trig" and "labels i = Some ls"
    and "\<not> issueIsParent ctx i" and "labelAccessPermissionsCheck ctx"
    and "isPayloadToSetPrice trig"
    and "tl (sortLabelsByValue ctx (filter isPriceLabel ls)) = before @ r # after"
    and "list_all (\<lambda>l. \<not> removeLabel_rejects ctx (name l)) before"
    and "removeLabel_rejects ctx (name r)"
  shows "fst (onLabelChangeSetPricing ctx w) = Thrown (RequestError (name r)) \<and>
     calls (snd (onLabelChangeSetPricing ctx w)) =
       calls w @ map (\<lambda>l. RemoveLabel (name l)) before @ [RemoveLabel (name r)] \<and>
     issue_labels (snd (onLabelChangeSetPricing ctx w)) =
       filter (\<lambda>l. name l \<notin> name ` set before) (issue_labels w) \<and>
     logs (snd (onLabelChangeSetPricing ctx w)) =
       logs w @ [(Info, ''This is setting the price label directly so skipping the rest of the action.'')]"
proof -
  let ?w' = "log Info ''This is setting the price label directly so skipping the rest of the action.'' w"
  have "onLabelChangeSetPricing ctx w = removeLabels ctx (before @ r # after) ?w'"
    using onLabelChangeSetPricing_reconcile [OF assms(1-4)] assms(5,6) removeOtherPriceLabels_eq by simp
  then show ?thesis
    by (simp add: removeLabels_rejected [OF assms(7,8)])
qed

theorem rejected_removal_aborts_and_throws_witness:
  "isPayloadToSetPrice (Some (lbl ''Price: 5 USD'')) \<and>
   tl (sortLabelsByValue
     (example_ctx [lbl ''Price: 5 USD'', lbl ''Price: 2 USD'', lbl ''Price: 1 USD'', lbl ''Price: 0 USD'']
       (Some (lbl ''Price: 5 USD'')) (Some []) [''Price: 2 USD''])
     (filter isPriceLabel [lbl ''Price: 5 USD'', lbl ''Price: 2 USD'', lbl ''Price: 1 USD'', lbl ''Price: 0 USD''])) =
     [lbl ''Price: 1 USD''] @ lbl ''Price: 2 USD'' # [lbl ''Price: 5 USD''] \<and>
   removeLabel_rejects
     (example_ctx [lbl ''Price: 5 USD'', lbl ''Price: 2 USD'', lbl ''Price: 1 USD'', lbl ''Price: 0 USD'']
       (Some (lbl ''Price: 5 USD'')) (Some []) [''Price: 2 USD''])
     (name (lbl ''Price: 2 USD'')) \<and>
   fst (onLabelChangeSetPricing
     (example_ctx [lbl ''Price: 5 USD'', lbl ''Price: 2 USD'', lbl ''Price: 1 USD'', lbl ''Price: 0 USD'']
       (Some (lbl ''Price: 5 USD'')) (Some []) [''Price: 2 USD''])
     (example_world [lbl ''Price: 5 USD'', lbl ''Price: 2 USD'', lbl ''Price: 1 USD'', lbl ''Price: 0 USD''])) =
     Thrown (RequestError ''Price: 2 USD'') \<and>
   calls (snd (onLabelChangeSetPricing
     (example_ctx [lbl ''Price: 5 USD'', lbl ''Price: 2 USD'', lbl ''Price: 1 USD'', lbl ''Price: 0 USD'']
       (Some (lbl ''Price: 5 USD'')) (Some []) [''Price: 2 USD''])
     (example_world [lbl ''Price: 5 USD'', lbl ''Price: 2 USD'', lbl ''Price: 1 USD'', lbl ''Price: 0 USD'']))) =
     [RemoveLabel ''Price: 1 USD'', RemoveLabel ''Price: 2 USD''] \<and>
   issue_labels (snd (onLabelChangeSetPricing
     (example_ctx [lbl ''Price: 5 USD'', lbl ''Price: 2 USD'', lbl ''Price: 1 USD'', lbl ''Price: 0 USD'']
       (Some (lbl ''Price: 5 USD'')) (Some []) [''Price: 2 USD''])
     (example_world [lbl ''Price: 5 USD'', lbl ''Price: 2 USD'', lbl ''Price: 1 USD'', lbl ''Price: 0 USD'']))) =
     [lbl ''Price: 5 USD'', lbl ''Price: 2 USD'', lbl ''Price: 0 USD'']"
proof -
  let ?ls = "[lbl ''Price: 5 USD'', lbl ''Price: 2 USD'', lbl ''Price: 1 USD'', lbl ''Price: 0 USD'']"
  let ?i = "\<lparr>body = None, labels = Some ?ls\<rparr>"
  let ?ctx = "example_ctx ?ls (Some (lbl ''Price: 5 USD'')) (Some []) [''Price: 2 USD'']"
  let ?w = "example_world ?ls"
  have a1: "payload ?ctx = IssueLabelEvent ?i (Some (lbl ''Price: 5 USD''))"
    by (simp add: example_ctx_def)
  have a2: "labels ?i = Some ?ls" by simp
  have a3: "\<not> issueIsParent ?ctx ?i" by (simp add: issueIsParent_def)
  have a4: "labelAccessPermissionsCheck ?ctx" by (simp add: example_ctx_def)
  have a5: "isPayloadToSetPrice (Some (lbl ''Price: 5 USD''))"
    by (simp add: isPayloadToSetPrice_def lbl_def)
  have pl: "filter isPriceLabel ?ls = ?ls"
    by (simp add: isPriceLabel_def lbl_def)
  have a6: "tl (sortLabelsByValue ?ctx (filter isPriceLabel ?ls)) =
      [lbl ''Price: 1 USD''] @ lbl ''Price: 2 USD'' # [lbl ''Price: 5 USD'']"
    unfolding pl by (simp add: example_defs sortLabelsByValue_def)
  have a7: "list_all (\<lambda>l. \<not> removeLabel_rejects ?ctx (name l)) [lbl ''Price: 1 USD'']"
    by (simp add: example_ctx_def lbl_def)
  have a8: "removeLabel_rejects ?ctx (name (lbl ''Price: 2 USD''))"
    by (simp add: example_ctx_def lbl_def)
  show ?thesis
    using a5 a6 a8 rejected_removal_aborts_and_throws [OF a1 a2 a3 a4 a5 a6 a7 a8, of ?w]
    by (simp add: example_world_def lbl_def)
qed

text \<open>
  C8 as stated has every remaining removal attempted after a failure. With the price
  labels of 1, 2 and 5 USD on the issue and the removal of \<^verbatim>\<open>Price: 2 USD\<close> rejected,
  the handler throws that request's error after this one call; the removal of
  \<^verbatim>\<open>Price: 5 USD\<close> is never attempted and the failure is not logged.
\<close>

theorem rejected_removal_counterexample:
  "onLabelChangeSetPricing
     (example_ctx [lbl ''Price: 5 USD'', lbl ''Price: 2 USD'', lbl ''Price: 1 USD'']
       (Some (lbl ''Price: 5 USD'')) (Some []) [''Price: 2 USD''])
     (example_world [lbl ''Price: 5 USD'', lbl ''Price: 2 USD'', lbl ''Price: 1 USD'']) =
   (Thrown (RequestError ''Price: 2 USD''),
    \<lparr>issue_labels = [lbl ''Price: 5 USD'', lbl ''Price: 2 USD'', lbl ''Price: 1 USD''],
      repo_labels = [],
      calls = [RemoveLabel ''Price: 2 USD''],
      logs = [(Info, ''This is setting the price label directly so skipping the rest of the action.'')]\<rparr>)"
  by (simp add: example_defs handler_defs)

end
